theory Spec2Isabelle
  imports Main "HOL-Library.Word"
begin

section \<open>Values, errors and the outside world\<close>

text \<open>
  The logger receives arbitrary JavaScript values, both as arguments of the log
  methods and as arguments of \<open>on\<close>. The values are modelled by what the code
  observes of them: their \<open>typeof\<close> being "function" or not, their identity as a
  string, and the outcome of \<open>String(v)\<close>.

  \<^item> \<open>JNum n\<close> is the number whose value is the signed reading \<open>sint n\<close> of a
    54-bit word, an integer from \<open>- 2 ^ 53\<close> to \<open>2 ^ 53 - 1\<close>. Each of these is a
    number of the language exactly, and its conversion is the plain decimal
    numeral. Fractions, larger numbers, NaN and the infinities are not modelled.
  \<^item> \<open>JFunction f src\<close> is the function object with identity \<open>f\<close> whose
    \<open>toString\<close> yields its source text \<open>src\<close>.
  \<^item> \<open>JObject r\<close> is any other object: \<open>r = Some s\<close> when \<open>String\<close> of it yields
    \<open>s\<close> (for example "[object Object]"), \<open>r = None\<close> when the conversion
    throws a TypeError (for example \<open>Object.create(null)\<close>).
\<close>

datatype jsval =
    JUndefined
  | JNull
  | JBool bool
  | JNum "54 word"
  | JStr string
  | JFunction nat string
  | JObject "string option"

datatype js_error =
    Error string
  | TypeError string
  | Thrown jsval

text \<open>
  The two sinks. The file system is a flat map from paths to file contents,
  together with the paths at which an append is refused (a missing directory, a
  directory in place of the file, no permission), each with the error the
  platform throws there. The console is the text written to standard output so
  far.
\<close>

record io =
  files :: "string \<rightharpoonup> string"
  faults :: "string \<rightharpoonup> js_error"
  stdout :: string

text \<open>No file has the empty path: \<open>fs.existsSync("")\<close> is false.\<close>

definition existsSync :: "string \<Rightarrow> io \<Rightarrow> bool" where
  "existsSync p w = (p \<noteq> [] \<and> files w p \<noteq> None)"

definition unlinkSync :: "string \<Rightarrow> io \<Rightarrow> io" where
  "unlinkSync p w = w\<lparr>files := (files w)(p := None)\<rparr>"

definition writeFileSync :: "string \<Rightarrow> string \<Rightarrow> io \<Rightarrow> io" where
  "writeFileSync p d w = w\<lparr>files := (files w)(p \<mapsto> d)\<rparr>"

text \<open>
  \<open>fs.appendFileSync\<close> throws where the append is refused and writes nothing
  then; otherwise it creates the file if need be and appends. The two
  primitives above, which only the constructor calls, are taken where they
  succeed: a construction that throws leaves no logger to speak of.
\<close>

definition appendFileSync :: "string \<Rightarrow> string \<Rightarrow> io \<Rightarrow> js_error option \<times> io" where
  "appendFileSync p d w =
     (case faults w p of
        Some e \<Rightarrow> (Some e, w)
      | None \<Rightarrow>
          (None, w\<lparr>files := (files w)(p \<mapsto> (case files w p of None \<Rightarrow> d | Some c \<Rightarrow> c @ d))\<rparr>))"

text \<open>
  \<open>console.log\<close> of one string writes the string and then a newline. It does not
  throw: the console ignores the errors of its stream.
\<close>

definition console_log :: "string \<Rightarrow> io \<Rightarrow> io" where
  "console_log m w = w\<lparr>stdout := stdout w @ m @ [CHR 0x0A]\<rparr>"

text \<open>
  A callback is foreign code: \<open>host f args w\<close> is what running the function
  with identity \<open>f\<close> on \<open>args\<close> does to the sinks, and whether it returns
  (\<open>None\<close>) or throws (\<open>Some e\<close>). Callbacks that reach back into the logger
  object itself are not modelled. The run-time state keeps, next to the sinks,
  the list of callback invocations made so far.
\<close>

type_synonym host = "nat \<Rightarrow> jsval list \<Rightarrow> io \<Rightarrow> js_error option \<times> io"

record runtime =
  sinks :: io
  invoked :: "(nat \<times> jsval list) list"

definition invoke :: "host \<Rightarrow> nat \<Rightarrow> jsval list \<Rightarrow> runtime \<Rightarrow> js_error option \<times> runtime" where
  "invoke host f args rt =
     (case host f args (sinks rt) of
        (r, w) \<Rightarrow> (r, rt\<lparr>sinks := w, invoked := invoked rt @ [(f, args)]\<rparr>))"

text \<open>Sequencing of two statements: a throw in the first skips the second.\<close>

definition and_then ::
  "js_error option \<times> 's \<Rightarrow> ('s \<Rightarrow> js_error option \<times> 's) \<Rightarrow> js_error option \<times> 's" where
  "and_then r k = (case r of (Some e, s) \<Rightarrow> (Some e, s) | (None, s) \<Rightarrow> k s)"

section \<open>String conversion and joining\<close>

fun string_of_nat :: "nat \<Rightarrow> string" where
  "string_of_nat n =
     (if n < 10 then [''0123456789'' ! n]
      else string_of_nat (n div 10) @ [''0123456789'' ! (n mod 10)])"

declare string_of_nat.simps [simp del]

definition string_of_int :: "int \<Rightarrow> string" where
  "string_of_int i = (if i < 0 then CHR ''-'' # string_of_nat (nat (- i)) else string_of_nat (nat i))"

text \<open>\<open>String(v)\<close>.\<close>

fun String_js :: "jsval \<Rightarrow> js_error + string" where
  "String_js JUndefined = Inr ''undefined''"
| "String_js JNull = Inr ''null''"
| "String_js (JBool b) = Inr (if b then ''true'' else ''false'')"
| "String_js (JNum n) = Inr (string_of_int (sint n))"
| "String_js (JStr s) = Inr s"
| "String_js (JFunction f src) = Inr src"
| "String_js (JObject None) = Inl (TypeError ''Cannot convert object to primitive value'')"
| "String_js (JObject (Some s)) = Inr s"

text \<open>
  \<open>message.map((arg) => String(arg))\<close>: the elements are converted from left to
  right and the first conversion that throws ends the map.
\<close>

fun map_String :: "jsval list \<Rightarrow> js_error + string list" where
  "map_String [] = Inr []"
| "map_String (v # vs) =
     (case String_js v of
        Inl e \<Rightarrow> Inl e
      | Inr s \<Rightarrow> (case map_String vs of Inl e \<Rightarrow> Inl e | Inr ss \<Rightarrow> Inr (s # ss)))"

text \<open>
  \<open>Array.prototype.join\<close> on an array of strings, as the language defines it: a
  result string \<open>R\<close> starts empty; the elements are visited by index and the
  separator is appended before every element but the first.
\<close>

fun join_loop :: "string \<Rightarrow> string list \<Rightarrow> nat \<Rightarrow> string \<Rightarrow> string" where
  "join_loop sep [] k R = R"
| "join_loop sep (x # xs) k R = join_loop sep xs (Suc k) ((if k > 0 then R @ sep else R) @ x)"

definition join :: "string \<Rightarrow> string list \<Rightarrow> string" where
  "join sep xs = join_loop sep xs 0 []"

section \<open>The logger of \<open>src/index.js\<close>\<close>

datatype severity = DEBUG | INFO | WARN | ERROR

fun LOG_TYPES :: "severity \<Rightarrow> string" where
  "LOG_TYPES DEBUG = ''DEBUG''"
| "LOG_TYPES INFO = ''INFO''"
| "LOG_TYPES WARN = ''WARN''"
| "LOG_TYPES ERROR = ''ERROR''"

fun LOG_LEVELS :: "severity \<Rightarrow> int" where
  "LOG_LEVELS DEBUG = 0"
| "LOG_LEVELS INFO = 1"
| "LOG_LEVELS WARN = 2"
| "LOG_LEVELS ERROR = 3"

text \<open>\<open>Object.values(LOG_TYPES)\<close>\<close>

definition Object_values_LOG_TYPES :: "jsval list" where
  "Object_values_LOG_TYPES = [JStr ''DEBUG'', JStr ''INFO'', JStr ''WARN'', JStr ''ERROR'']"

text \<open>The \<open>typeof\<close> operator.\<close>

fun typeof :: "jsval \<Rightarrow> string" where
  "typeof JUndefined = ''undefined''"
| "typeof JNull = ''object''"
| "typeof (JBool b) = ''boolean''"
| "typeof (JNum n) = ''number''"
| "typeof (JStr s) = ''string''"
| "typeof (JFunction f src) = ''function''"
| "typeof (JObject r) = ''object''"

text \<open>
  The fields of a Logger object. The first four are those of the older class in
  \<open>src/unnamed/part_000\<close>; the current class adds \<open>clearFile\<close> and the callback
  table \<open>cb\<close>, an object indexed by severity name. \<open>level\<close> is an integer, as the
  documented parameter type \<open>LOG_LEVELS\<close> says.
\<close>

record legacy_logger =
  logToFile :: bool
  logToConsole :: bool
  logFilePath :: "string option"
  level :: int

record logger = legacy_logger +
  clearFile :: bool
  cb :: "string \<rightharpoonup> nat"

text \<open>The options object handed to the constructor; \<open>None\<close> is an omitted option.\<close>

record legacy_opts =
  opt_logToFile :: "bool option"
  opt_logToConsole :: "bool option"
  opt_logFilePath :: "string option"
  opt_level :: "int option"

record opts = legacy_opts +
  opt_clearFile :: "bool option"

text \<open>Truthiness of a value that is \<open>undefined\<close> or a string: the empty string is falsy.\<close>

fun truthy :: "string option \<Rightarrow> bool" where
  "truthy None = False"
| "truthy (Some s) = (s \<noteq> [])"

definition Logger_constructor :: "opts \<Rightarrow> io \<Rightarrow> logger \<times> io" where
  "Logger_constructor opt w =
     (let this = \<lparr> logToFile = (case opt_logToFile opt of None \<Rightarrow> False | Some b \<Rightarrow> b),
                   logToConsole = (case opt_logToConsole opt of None \<Rightarrow> False | Some b \<Rightarrow> b),
                   logFilePath = (if truthy (opt_logFilePath opt) then opt_logFilePath opt else None),
                   level = (case opt_level opt of None \<Rightarrow> LOG_LEVELS INFO | Some l \<Rightarrow> l),
                   clearFile = (case opt_clearFile opt of None \<Rightarrow> False | Some b \<Rightarrow> b),
                   cb = Map.empty \<rparr>
      in case logFilePath this of
           None \<Rightarrow> (this, w)
         | Some p \<Rightarrow>
             if logToFile this \<and> p \<noteq> [] then
               (let w1 = (if existsSync p w then unlinkSync p w else w);
                    w2 = (if clearFile this then writeFileSync p [] w1 else w1)
                in (this, w2))
             else (this, w))"

text \<open>\<open>#getFormattedMessage\<close>\<close>

definition Logger_getFormattedMessage :: "jsval list \<Rightarrow> js_error + string" where
  "Logger_getFormattedMessage message =
     (case map_String message of
        Inl e \<Rightarrow> Inl e
      | Inr ss \<Rightarrow> Inr (join '' '' ss @ [CHR 0x0A]))"

text \<open>\<open>#logToFile\<close>\<close>

definition Logger_logToFile :: "logger \<Rightarrow> string \<Rightarrow> runtime \<Rightarrow> js_error option \<times> runtime" where
  "Logger_logToFile this message rt =
     (if logToFile this then
        (case logFilePath this of
           None \<Rightarrow> (Some (Error ''No log file path provided''), rt)
         | Some p \<Rightarrow>
             if p = [] then (Some (Error ''No log file path provided''), rt)
             else (case appendFileSync p message (sinks rt) of
                     (r, w) \<Rightarrow> (r, rt\<lparr>sinks := w\<rparr>)))
      else (None, rt))"

text \<open>\<open>#logToConsole\<close>\<close>

definition Logger_logToConsole :: "logger \<Rightarrow> string \<Rightarrow> runtime \<Rightarrow> js_error option \<times> runtime" where
  "Logger_logToConsole this message rt =
     (if logToConsole this then (None, rt\<lparr>sinks := console_log message (sinks rt)\<rparr>)
      else (None, rt))"

text \<open>
  \<open>#log\<close>. The value of \<open>#getFormattedDate()\<close>, the ISO timestamp of the clock at
  the call, is the parameter \<open>date\<close>.
\<close>

definition Logger_log ::
  "logger \<Rightarrow> string \<Rightarrow> jsval list \<Rightarrow> string \<Rightarrow> runtime \<Rightarrow> js_error option \<times> runtime" where
  "Logger_log this lvl message date rt =
     (case Logger_getFormattedMessage message of
        Inl e \<Rightarrow> (Some e, rt)
      | Inr payloadString \<Rightarrow>
          (let logMessage = date @ '' ['' @ lvl @ ''] '' @ payloadString
           in and_then (Logger_logToFile this logMessage rt) (Logger_logToConsole this logMessage)))"

text \<open>The callback line that opens each of the four log methods.\<close>

definition run_cb :: "host \<Rightarrow> logger \<Rightarrow> string \<Rightarrow> jsval list \<Rightarrow> runtime \<Rightarrow> js_error option \<times> runtime" where
  "run_cb host this name message rt =
     (case cb this name of None \<Rightarrow> (None, rt) | Some f \<Rightarrow> invoke host f message rt)"

definition Logger_debug ::
  "host \<Rightarrow> logger \<Rightarrow> jsval list \<Rightarrow> string \<Rightarrow> runtime \<Rightarrow> js_error option \<times> runtime" where
  "Logger_debug host this message date rt =
     and_then (run_cb host this (LOG_TYPES DEBUG) message rt)
       (\<lambda>rt. if level this > LOG_LEVELS DEBUG then (None, rt)
             else Logger_log this ''DEBUG'' message date rt)"

definition Logger_info ::
  "host \<Rightarrow> logger \<Rightarrow> jsval list \<Rightarrow> string \<Rightarrow> runtime \<Rightarrow> js_error option \<times> runtime" where
  "Logger_info host this message date rt =
     and_then (run_cb host this (LOG_TYPES INFO) message rt)
       (\<lambda>rt. if level this > LOG_LEVELS INFO then (None, rt)
             else Logger_log this ''INFO'' message date rt)"

definition Logger_warn ::
  "host \<Rightarrow> logger \<Rightarrow> jsval list \<Rightarrow> string \<Rightarrow> runtime \<Rightarrow> js_error option \<times> runtime" where
  "Logger_warn host this message date rt =
     and_then (run_cb host this (LOG_TYPES WARN) message rt)
       (\<lambda>rt. if level this > LOG_LEVELS WARN then (None, rt)
             else Logger_log this ''WARN'' message date rt)"

definition Logger_error ::
  "host \<Rightarrow> logger \<Rightarrow> jsval list \<Rightarrow> string \<Rightarrow> runtime \<Rightarrow> js_error option \<times> runtime" where
  "Logger_error host this message date rt =
     and_then (run_cb host this (LOG_TYPES ERROR) message rt)
       (\<lambda>rt. if level this > LOG_LEVELS ERROR then (None, rt)
             else Logger_log this ''ERROR'' message date rt)"

text \<open>The method named after a severity.\<close>

fun Logger_method ::
  "severity \<Rightarrow> host \<Rightarrow> logger \<Rightarrow> jsval list \<Rightarrow> string \<Rightarrow> runtime \<Rightarrow> js_error option \<times> runtime" where
  "Logger_method DEBUG = Logger_debug"
| "Logger_method INFO = Logger_info"
| "Logger_method WARN = Logger_warn"
| "Logger_method ERROR = Logger_error"

text \<open>
  \<open>on(level, cb)\<close>. \<open>includes\<close> compares with SameValueZero, which on strings
  is equality. The method has no throwing path; the first component of the
  result says so.
\<close>

definition Logger_on :: "logger \<Rightarrow> jsval \<Rightarrow> jsval \<Rightarrow> js_error option \<times> logger" where
  "Logger_on this lvl f =
     (if lvl \<notin> set Object_values_LOG_TYPES then (None, this)
      else if typeof f \<noteq> ''function'' then (None, this)
      else (case (lvl, f) of
              (JStr name, JFunction g src) \<Rightarrow> (None, this\<lparr>cb := (cb this)(name \<mapsto> g)\<rparr>)
            | _ \<Rightarrow> (None, this)))"

section \<open>The older logger of \<open>src/unnamed/part_000\<close>\<close>

text \<open>
  The older class has no callbacks and its constructor does not touch the file
  system, so its methods act on the sinks alone.
\<close>

definition Legacy_constructor :: "legacy_opts \<Rightarrow> legacy_logger" where
  "Legacy_constructor opt =
     \<lparr> logToFile = (case opt_logToFile opt of None \<Rightarrow> False | Some b \<Rightarrow> b),
       logToConsole = (case opt_logToConsole opt of None \<Rightarrow> False | Some b \<Rightarrow> b),
       logFilePath = (if truthy (opt_logFilePath opt) then opt_logFilePath opt else None),
       level = (case opt_level opt of None \<Rightarrow> LOG_LEVELS INFO | Some l \<Rightarrow> l) \<rparr>"

definition Legacy_logToFile :: "legacy_logger \<Rightarrow> string \<Rightarrow> io \<Rightarrow> js_error option \<times> io" where
  "Legacy_logToFile this message w =
     (if logToFile this then
        (case logFilePath this of
           None \<Rightarrow> (Some (Error ''No log file path provided''), w)
         | Some p \<Rightarrow>
             if p = [] then (Some (Error ''No log file path provided''), w)
             else appendFileSync p message w)
      else (None, w))"

definition Legacy_logToConsole :: "legacy_logger \<Rightarrow> string \<Rightarrow> io \<Rightarrow> js_error option \<times> io" where
  "Legacy_logToConsole this message w =
     (if logToConsole this then (None, console_log message w) else (None, w))"

definition Legacy_log ::
  "legacy_logger \<Rightarrow> string \<Rightarrow> jsval list \<Rightarrow> string \<Rightarrow> io \<Rightarrow> js_error option \<times> io" where
  "Legacy_log this lvl message date w =
     (case Logger_getFormattedMessage message of
        Inl e \<Rightarrow> (Some e, w)
      | Inr payloadString \<Rightarrow>
          (let logMessage = date @ '' ['' @ lvl @ ''] '' @ payloadString
           in and_then (Legacy_logToFile this logMessage w) (Legacy_logToConsole this logMessage)))"

definition Legacy_debug ::
  "legacy_logger \<Rightarrow> jsval list \<Rightarrow> string \<Rightarrow> io \<Rightarrow> js_error option \<times> io" where
  "Legacy_debug this message date w =
     (if level this > LOG_LEVELS DEBUG then (None, w) else Legacy_log this ''DEBUG'' message date w)"

definition Legacy_info ::
  "legacy_logger \<Rightarrow> jsval list \<Rightarrow> string \<Rightarrow> io \<Rightarrow> js_error option \<times> io" where
  "Legacy_info this message date w =
     (if level this > LOG_LEVELS INFO then (None, w) else Legacy_log this ''INFO'' message date w)"

definition Legacy_warn ::
  "legacy_logger \<Rightarrow> jsval list \<Rightarrow> string \<Rightarrow> io \<Rightarrow> js_error option \<times> io" where
  "Legacy_warn this message date w =
     (if level this > LOG_LEVELS WARN then (None, w) else Legacy_log this ''WARN'' message date w)"

definition Legacy_error ::
  "legacy_logger \<Rightarrow> jsval list \<Rightarrow> string \<Rightarrow> io \<Rightarrow> js_error option \<times> io" where
  "Legacy_error this message date w =
     (if level this > LOG_LEVELS ERROR then (None, w) else Legacy_log this ''ERROR'' message date w)"

fun Legacy_method ::
  "severity \<Rightarrow> legacy_logger \<Rightarrow> jsval list \<Rightarrow> string \<Rightarrow> io \<Rightarrow> js_error option \<times> io" where
  "Legacy_method DEBUG = Legacy_debug"
| "Legacy_method INFO = Legacy_info"
| "Legacy_method WARN = Legacy_warn"
| "Legacy_method ERROR = Legacy_error"

section \<open>Client scripts\<close>

text \<open>
  A client that makes a sequence of log calls, each with its severity, its
  arguments and the timestamp the clock gives it, catching what a call throws
  and going on. The outcome of every call is recorded.
\<close>

type_synonym log_call = "severity \<times> jsval list \<times> string"

fun Logger_run ::
  "host \<Rightarrow> logger \<Rightarrow> log_call list \<Rightarrow> runtime \<Rightarrow> js_error option list \<times> runtime" where
  "Logger_run host this [] rt = ([], rt)"
| "Logger_run host this ((s, message, date) # cs) rt =
     (case Logger_method s host this message date rt of
        (r, rt1) \<Rightarrow> (case Logger_run host this cs rt1 of (rs, rt2) \<Rightarrow> (r # rs, rt2)))"

fun Legacy_run ::
  "legacy_logger \<Rightarrow> log_call list \<Rightarrow> io \<Rightarrow> js_error option list \<times> io" where
  "Legacy_run this [] w = ([], w)"
| "Legacy_run this ((s, message, date) # cs) w =
     (case Legacy_method s this message date w of
        (r, w1) \<Rightarrow> (case Legacy_run this cs w1 of (rs, w2) \<Rightarrow> (r # rs, w2)))"

section \<open>The spec's wording of the message body\<close>

text \<open>
  The spec describes the body as the converted arguments "joined with a single
  ASCII space". \<open>spaced\<close> writes that down directly; it is compared with the
  join loop of the code in C7.
\<close>

fun spaced :: "string list \<Rightarrow> string" where
  "spaced [] = []"
| "spaced [s] = s"
| "spaced (s # t # ts) = s @ '' '' @ spaced (t # ts)"

section \<open>Example configurations\<close>

text \<open>
  Concrete options, loggers, sinks and callbacks at which the theorems below are
  instantiated: an empty file system with a silent console, a callback that
  returns and one that throws.
\<close>

definition io0 :: io where
  "io0 = \<lparr>files = Map.empty, faults = Map.empty, stdout = []\<rparr>"

definition rt0 :: runtime where
  "rt0 = \<lparr>sinks = io0, invoked = []\<rparr>"

definition quiet_host :: host where
  "quiet_host f args w = (None, w)"

definition failing_host :: host where
  "failing_host f args w = (Some (Error ''boom''), w)"

definition scenario_opts :: opts where
  "scenario_opts = \<lparr>opt_logToFile = None, opt_logToConsole = Some True, opt_logFilePath = None,
     opt_level = Some 1, opt_clearFile = None\<rparr>"

definition pathless_opts :: opts where
  "pathless_opts = \<lparr>opt_logToFile = Some True, opt_logToConsole = Some True, opt_logFilePath = None,
     opt_level = None, opt_clearFile = None\<rparr>"

definition empty_opts :: opts where
  "empty_opts = \<lparr>opt_logToFile = None, opt_logToConsole = None, opt_logFilePath = None,
     opt_level = None, opt_clearFile = None\<rparr>"

definition plain_logger :: logger where
  "plain_logger = fst (Logger_constructor empty_opts io0)"

definition clearing_opts :: opts where
  "clearing_opts = \<lparr>opt_logToFile = Some True, opt_logToConsole = None,
     opt_logFilePath = Some ''app.log'', opt_level = None, opt_clearFile = Some True\<rparr>"

definition keeping_opts :: opts where
  "keeping_opts = \<lparr>opt_logToFile = Some True, opt_logToConsole = None,
     opt_logFilePath = Some ''app.log'', opt_level = None, opt_clearFile = None\<rparr>"

definition used_io :: io where
  "used_io = \<lparr>files = [''app.log'' \<mapsto> ''old contents''], faults = Map.empty, stdout = []\<rparr>"

definition pathless_logger :: logger where
  "pathless_logger = fst (Logger_constructor pathless_opts io0)"

definition guarded_logger :: logger where
  "guarded_logger = snd (Logger_on pathless_logger (JStr ''DEBUG'') (JFunction 0 ''f''))"

definition file_logger :: logger where
  "file_logger = fst (Logger_constructor
     \<lparr>opt_logToFile = Some True, opt_logToConsole = Some True, opt_logFilePath = Some ''app.log'',
      opt_level = Some 2, opt_clearFile = None\<rparr> io0)"

text \<open>A callback that prints its arguments on the console and returns.\<close>

definition echo_host :: host where
  "echo_host f args w =
     (None, w\<lparr>stdout := stdout w @ (case Logger_getFormattedMessage args of
                                          Inl e \<Rightarrow> [] | Inr b \<Rightarrow> b)\<rparr>)"

text \<open>A file system that refuses appends to the log file.\<close>

definition refusing_rt :: runtime where
  "refusing_rt = \<lparr>sinks = \<lparr>files = Map.empty,
                              faults = [''app.log'' \<mapsto> Error ''EACCES: permission denied''],
                              stdout = []\<rparr>,
                   invoked = []\<rparr>"

definition two_calls :: "log_call list" where
  "two_calls = [(WARN, [JStr ''x''], ''t''), (DEBUG, [JStr ''y''], ''u'')]"

section \<open>Auxiliary facts\<close>

text \<open>The join loop against the spec's wording, and the conversions of a whole list.\<close>

lemma join_loop_Suc: "join_loop sep xs (Suc k) R = R @ concat (map (\<lambda>x. sep @ x) xs)"
  by (induction xs arbitrary: k R) auto

lemma spaced_Cons: "spaced (x # xs) = x @ concat (map (\<lambda>y. '' '' @ y) xs)"
  by (induction xs arbitrary: x) auto

lemma join_spaced: "join '' '' xs = spaced xs"
  by (cases xs) (simp_all add: join_def join_loop_Suc spaced_Cons)

lemma map_String_Inr: "map String_js args = map Inr ss \<Longrightarrow> map_String args = Inr ss"
proof (induction args arbitrary: ss)
  case Nil
  then show ?case by simp
next
  case (Cons v vs)
  then obtain s ss' where ss: "ss = s # ss'" by (cases ss) auto
  with Cons.prems have "String_js v = Inr s" "map String_js vs = map Inr ss'" by auto
  with Cons.IH ss show ?case by simp
qed

lemma body_x: "Logger_getFormattedMessage [JStr ''x''] = Inr (''x'' @ [CHR 0x0A])"
  by (simp add: Logger_getFormattedMessage_def join_def)

text \<open>The four log methods share one shape; \<open>on\<close> with good arguments stores the function.\<close>

lemma Logger_on_registers:
  "Logger_on this (JStr (LOG_TYPES s)) (JFunction g src)
     = (None, this\<lparr>cb := (cb this)(LOG_TYPES s \<mapsto> g)\<rparr>)"
  by (cases s) (simp_all add: Logger_on_def Object_values_LOG_TYPES_def)

lemma Logger_method_unfold:
  "Logger_method s host this message date rt =
     and_then (run_cb host this (LOG_TYPES s) message rt)
       (\<lambda>rt. if level this > LOG_LEVELS s then (None, rt)
             else Logger_log this (LOG_TYPES s) message date rt)"
  by (cases s) (simp_all add: Logger_debug_def Logger_info_def Logger_warn_def Logger_error_def cong del: if_weak_cong)

lemma Logger_log_invoked: "invoked (snd (Logger_log this lvl message date rt)) = invoked rt"
  by (simp add: Logger_log_def Logger_logToFile_def Logger_logToConsole_def and_then_def Let_def
      appendFileSync_def split: sum.splits option.splits)

lemma cb_fires:
  assumes "cb this (LOG_TYPES s) = Some f"
  shows "invoked (snd (Logger_method s host this message date rt)) = invoked rt @ [(f, message)]"
proof -
  obtain r w where h: "host f message (sinks rt) = (r, w)" by (cases "host f message (sinks rt)")
  show ?thesis
  proof (cases r)
    case None
    with h assms show ?thesis
      by (simp add: Logger_method_unfold run_cb_def invoke_def and_then_def Logger_log_invoked)
  next
    case (Some e)
    with h assms show ?thesis
      by (simp add: Logger_method_unfold run_cb_def invoke_def and_then_def)
  qed
qed

lemma Logger_log_no_path:
  assumes "logToFile this" and "\<not> truthy (logFilePath this)"
    and "Logger_getFormattedMessage message = Inr body"
  shows "Logger_log this lvl message date rt = (Some (Error ''No log file path provided''), rt)"
  using assms
  by (cases "logFilePath this")
     (simp_all add: Logger_log_def Logger_logToFile_def and_then_def)

text \<open>A refused append is thrown out of \<open>#log\<close> before the console is written.\<close>

lemma Logger_log_append_refused:
  assumes "logToFile this" and "logFilePath this = Some p" and "p \<noteq> []"
    and "faults (sinks rt) p = Some e"
    and "Logger_getFormattedMessage message = Inr body"
  shows "Logger_log this lvl message date rt = (Some e, rt)"
  using assms
  by (simp add: Logger_log_def Logger_logToFile_def and_then_def appendFileSync_def)

text \<open>Without callbacks the current class behaves as the older one.\<close>

lemma Logger_log_legacy:
  "Logger_log this lvl message date rt =
     (case Legacy_log (legacy_logger.truncate this) lvl message date (sinks rt) of
        (r, w) \<Rightarrow> (r, rt\<lparr>sinks := w\<rparr>))"
  by (simp add: Logger_log_def Legacy_log_def Logger_logToFile_def Legacy_logToFile_def
      Logger_logToConsole_def Legacy_logToConsole_def and_then_def legacy_logger.truncate_def Let_def
      appendFileSync_def split: sum.splits option.splits)

lemma Logger_method_legacy:
  assumes "cb this = Map.empty"
  shows "Logger_method s host this message date rt =
     (case Legacy_method s (legacy_logger.truncate this) message date (sinks rt) of
        (r, w) \<Rightarrow> (r, rt\<lparr>sinks := w\<rparr>))"
proof -
  have lv: "level (legacy_logger.truncate this) = level this"
    by (simp add: legacy_logger.truncate_def)
  show ?thesis
    using assms
    by (cases s)
       (simp_all add: Logger_debug_def Logger_info_def Logger_warn_def Logger_error_def
          Legacy_debug_def Legacy_info_def Legacy_warn_def Legacy_error_def
          run_cb_def and_then_def lv Logger_log_legacy)
qed

lemma Logger_run_legacy:
  assumes "cb this = Map.empty"
  shows "Logger_run host this calls rt =
     (case Legacy_run (legacy_logger.truncate this) calls (sinks rt) of
        (rs, w) \<Rightarrow> (rs, rt\<lparr>sinks := w\<rparr>))"
proof (induction calls arbitrary: rt)
  case Nil
  show ?case by simp
next
  case (Cons c cs)
  obtain s message date where c: "c = (s, message, date)" by (cases c)
  show ?case
    by (simp add: c Logger_method_legacy [OF assms] Cons.IH split: prod.splits)
qed

text \<open>The example loggers, evaluated.\<close>

lemma plain_logger_eq:
  "plain_logger = \<lparr>logToFile = False, logToConsole = False, logFilePath = None, level = 1,
     clearFile = False, cb = Map.empty\<rparr>"
  by (simp add: plain_logger_def Logger_constructor_def empty_opts_def)

lemma scenario_logger_eq:
  "fst (Logger_constructor scenario_opts w) =
     \<lparr>logToFile = False, logToConsole = True, logFilePath = None, level = 1,
      clearFile = False, cb = Map.empty\<rparr>"
  by (simp add: Logger_constructor_def scenario_opts_def)

lemma pathless_logger_eq:
  "pathless_logger = \<lparr>logToFile = True, logToConsole = True, logFilePath = None, level = 1,
     clearFile = False, cb = Map.empty\<rparr>"
  by (simp add: pathless_logger_def Logger_constructor_def pathless_opts_def)

lemma guarded_logger_eq:
  "guarded_logger = \<lparr>logToFile = True, logToConsole = True, logFilePath = None, level = 1,
     clearFile = False, cb = [''DEBUG'' \<mapsto> 0]\<rparr>"
  by (simp add: guarded_logger_def pathless_logger_eq Logger_on_def Object_values_LOG_TYPES_def)

lemma file_logger_eq:
  "file_logger = \<lparr>logToFile = True, logToConsole = True, logFilePath = Some ''app.log'', level = 2,
     clearFile = False, cb = Map.empty\<rparr>"
  by (simp add: file_logger_def Logger_constructor_def io0_def existsSync_def)

text \<open>With the append refused, \<open>warn("x")\<close> throws and leaves both sinks untouched.\<close>

lemma file_logger_append_refused:
  "Logger_warn quiet_host file_logger [JStr ''x''] ''t'' refusing_rt
     = (Some (Error ''EACCES: permission denied''), refusing_rt)"
  by (simp add: Logger_warn_def run_cb_def and_then_def file_logger_eq refusing_rt_def
      Logger_log_append_refused [where p = "''app.log''" and body = "''x'' @ [CHR 0x0A]"] body_x)

section \<open>The claims\<close>

text \<open>
  Claim C1, amended. The claim as stated fails when the file sink is enabled
  without a path: the call throws before the console is written (see the
  counterexample below). It holds for every call whose callback, if any,
  returns and which, when the ordinal of its severity is at least the minimum
  level, has arguments that all convert to strings and a file sink that, if
  enabled, has a path at which the append is not refused. Such a call returns
  normally; the line \<open>date [SEVERITY] body\<close> is appended to the file, and
  written with \<open>console.log\<close> to the console, for each of the two sinks that is
  enabled, if and only if the ordinal of the severity is at least the minimum
  level; below the minimum the call changes nothing after the callback,
  whatever its arguments and its file sink are.
\<close>

theorem emission_iff_level_reached:
  assumes cbk: "run_cb host this (LOG_TYPES s) message rt = (None, rt1)"
    and emit: "level this \<le> LOG_LEVELS s \<longrightarrow>
                 Logger_getFormattedMessage message = Inr body
               \<and> (logToFile this \<longrightarrow>
                    logFilePath this = Some p \<and> p \<noteq> [] \<and> faults (sinks rt1) p = None)"
  shows "fst (Logger_method s host this message date rt) = None
       \<and> (LOG_LEVELS s < level this \<longrightarrow> snd (Logger_method s host this message date rt) = rt1)
       \<and> (logToConsole this \<longrightarrow>
            (stdout (sinks (snd (Logger_method s host this message date rt)))
               = stdout (sinks rt1) @ (date @ '' ['' @ LOG_TYPES s @ ''] '' @ body) @ [CHR 0x0A])
            = (level this \<le> LOG_LEVELS s))
       \<and> (logToFile this \<longrightarrow> logFilePath this = Some p \<longrightarrow>
            (files (sinks (snd (Logger_method s host this message date rt))) p
               = Some ((case files (sinks rt1) p of None \<Rightarrow> [] | Some c \<Rightarrow> c)
                        @ date @ '' ['' @ LOG_TYPES s @ ''] '' @ body))
            = (level this \<le> LOG_LEVELS s))"
proof (cases "level this \<le> LOG_LEVELS s")
  case False
  then have "Logger_method s host this message date rt = (None, rt1)"
    using cbk by (simp add: Logger_method_unfold and_then_def)
  with False show ?thesis
    by (simp split: option.splits)
next
  case True
  then have m: "Logger_method s host this message date rt
      = Logger_log this (LOG_TYPES s) message date rt1"
    using cbk by (simp add: Logger_method_unfold and_then_def)
  from True emit have body: "Logger_getFormattedMessage message = Inr body"
    by simp
  show ?thesis
  proof (cases "logToFile this")
    case False
    with True show ?thesis
      unfolding m
      by (simp add: Logger_log_def body Logger_logToFile_def Logger_logToConsole_def and_then_def
          console_log_def Let_def)
  next
    case lf: True
    with True emit have "logFilePath this = Some p" "p \<noteq> []" "faults (sinks rt1) p = None"
      by simp_all
    with True lf show ?thesis
      unfolding m
      by (simp add: Logger_log_def body Logger_logToFile_def Logger_logToConsole_def and_then_def
          console_log_def appendFileSync_def Let_def split: option.splits)
  qed
qed

text \<open>
  The witness: a logger with both sinks at level WARN emits a \<open>warn\<close> call, and
  filters a \<open>debug\<close> call whose argument has no string conversion.
\<close>

theorem emission_iff_level_reached_witness:
  "run_cb quiet_host file_logger (LOG_TYPES WARN) [JStr ''x''] rt0 = (None, rt0)
   \<and> level file_logger \<le> LOG_LEVELS WARN
   \<and> Logger_getFormattedMessage [JStr ''x''] = Inr (''x'' @ [CHR 0x0A])
   \<and> logToFile file_logger \<and> logFilePath file_logger = Some ''app.log'' \<and> logToConsole file_logger
   \<and> faults (sinks rt0) ''app.log'' = None
   \<and> fst (Logger_method WARN quiet_host file_logger [JStr ''x''] ''t'' rt0) = None
   \<and> stdout (sinks (snd (Logger_method WARN quiet_host file_logger [JStr ''x''] ''t'' rt0)))
        = ''t [WARN] x'' @ [CHR 0x0A, CHR 0x0A]
   \<and> files (sinks (snd (Logger_method WARN quiet_host file_logger [JStr ''x''] ''t'' rt0))) ''app.log''
        = Some (''t [WARN] x'' @ [CHR 0x0A])
   \<and> run_cb quiet_host file_logger (LOG_TYPES DEBUG) [JObject None] rt0 = (None, rt0)
   \<and> LOG_LEVELS DEBUG < level file_logger
   \<and> Logger_method DEBUG quiet_host file_logger [JObject None] ''t'' rt0 = (None, rt0)"
proof -
  have a: "run_cb quiet_host file_logger (LOG_TYPES WARN) [JStr ''x''] rt0 = (None, rt0)"
    by (simp add: file_logger_eq run_cb_def)
  have b: "run_cb quiet_host file_logger (LOG_TYPES DEBUG) [JObject None] rt0 = (None, rt0)"
    by (simp add: file_logger_eq run_cb_def)
  have c: "level file_logger \<le> LOG_LEVELS WARN \<longrightarrow>
             Logger_getFormattedMessage [JStr ''x''] = Inr (''x'' @ [CHR 0x0A])
           \<and> (logToFile file_logger \<longrightarrow>
                logFilePath file_logger = Some ''app.log'' \<and> ''app.log'' \<noteq> []
              \<and> faults (sinks rt0) ''app.log'' = None)"
    by (simp add: file_logger_eq body_x rt0_def io0_def)
  have c': "level file_logger \<le> LOG_LEVELS DEBUG \<longrightarrow>
             Logger_getFormattedMessage [JObject None] = Inr []
           \<and> (logToFile file_logger \<longrightarrow>
                logFilePath file_logger = Some ''app.log'' \<and> ''app.log'' \<noteq> []
              \<and> faults (sinks rt0) ''app.log'' = None)"
    by (simp add: file_logger_eq)
  have d: "logToFile file_logger" "logFilePath file_logger = Some ''app.log''"
      "logToConsole file_logger" "level file_logger \<le> LOG_LEVELS WARN"
      "LOG_LEVELS DEBUG < level file_logger"
      "stdout (sinks rt0) = []" "files (sinks rt0) ''app.log'' = None"
      "faults (sinks rt0) ''app.log'' = None"
    by (simp_all add: file_logger_eq rt0_def io0_def)
  show ?thesis
    using a b d body_x
      emission_iff_level_reached [OF a c, of "''t''"]
      emission_iff_level_reached [OF b c', of "''t''"]
    by (simp add: prod_eq_iff)
qed

text \<open>
  The counterexample to C1 as stated: \<open>new Logger({logToFile: true, logToConsole: true})\<close>
  has the console enabled and level INFO, yet \<open>info("x")\<close> throws in \<open>#logToFile\<close>
  and the console receives nothing.
\<close>

theorem enabled_console_missed_counterexample:
  "logToConsole pathless_logger \<and> level pathless_logger \<le> LOG_LEVELS INFO
   \<and> Logger_info quiet_host pathless_logger [JStr ''x''] ''t'' rt0
        = (Some (Error ''No log file path provided''), rt0)
   \<and> stdout (sinks (snd (Logger_info quiet_host pathless_logger [JStr ''x''] ''t'' rt0))) = []"
  by (simp add: pathless_logger_eq Logger_info_def run_cb_def and_then_def Logger_log_def body_x
      Logger_logToFile_def rt0_def io0_def)

text \<open>
  Claim C2. Construction with the file sink enabled, a path set and a file
  already at that path: with the clear option true the file exists and is empty
  right after construction; without it the file is gone.
\<close>

theorem constructor_clears_or_removes_file:
  assumes "opt_logToFile opt = Some True" and "opt_logFilePath opt = Some p" and "existsSync p w"
  shows "(opt_clearFile opt = Some True \<longrightarrow>
            existsSync p (snd (Logger_constructor opt w))
          \<and> files (snd (Logger_constructor opt w)) p = Some [])
       \<and> (opt_clearFile opt \<noteq> Some True \<longrightarrow> \<not> existsSync p (snd (Logger_constructor opt w)))"
  using assms
  by (auto simp: Logger_constructor_def Let_def existsSync_def unlinkSync_def writeFileSync_def
      split: option.splits)

theorem constructor_clears_or_removes_file_witness:
  "opt_logToFile clearing_opts = Some True \<and> opt_logFilePath clearing_opts = Some ''app.log''
   \<and> existsSync ''app.log'' used_io \<and> opt_clearFile clearing_opts = Some True
   \<and> existsSync ''app.log'' (snd (Logger_constructor clearing_opts used_io))
   \<and> files (snd (Logger_constructor clearing_opts used_io)) ''app.log'' = Some []
   \<and> opt_logToFile keeping_opts = Some True \<and> opt_logFilePath keeping_opts = Some ''app.log''
   \<and> opt_clearFile keeping_opts \<noteq> Some True
   \<and> \<not> existsSync ''app.log'' (snd (Logger_constructor keeping_opts used_io))"
proof -
  have a: "opt_logToFile clearing_opts = Some True" "opt_logFilePath clearing_opts = Some ''app.log''"
    by (simp_all add: clearing_opts_def)
  have b: "opt_logToFile keeping_opts = Some True" "opt_logFilePath keeping_opts = Some ''app.log''"
    by (simp_all add: keeping_opts_def)
  have c: "existsSync ''app.log'' used_io"
    by (simp add: existsSync_def used_io_def)
  have d: "opt_clearFile clearing_opts = Some True" "opt_clearFile keeping_opts \<noteq> Some True"
    by (simp_all add: clearing_opts_def keeping_opts_def)
  show ?thesis
    using a b c d constructor_clears_or_removes_file [OF a c]
          constructor_clears_or_removes_file [OF b c]
    by simp
qed

text \<open>
  Claim C3, amended. For \<open>new Logger({logToConsole: true, level: 1})\<close>:
  \<open>debug("x")\<close> writes nothing, and \<open>info("x")\<close> makes one \<open>console.log\<close> call
  whose argument is the timestamp followed by " [INFO] x" and a newline. As
  \<open>console.log\<close> ends its output with a newline of its own, the console stream
  receives two newline characters after "[INFO] x", not one.
\<close>

theorem console_gets_message_and_newline:
  "Logger_debug host (fst (Logger_constructor scenario_opts w)) [JStr ''x''] date rt = (None, rt)
   \<and> Logger_info host (fst (Logger_constructor scenario_opts w)) [JStr ''x''] date rt
       = (None, rt\<lparr>sinks := (sinks rt)\<lparr>stdout :=
            stdout (sinks rt) @ date @ '' [INFO] x'' @ [CHR 0x0A, CHR 0x0A]\<rparr>\<rparr>)"
  by (simp add: scenario_logger_eq Logger_debug_def Logger_info_def run_cb_def and_then_def
      Logger_log_def body_x Logger_logToFile_def Logger_logToConsole_def console_log_def)

text \<open>
  The counterexample to C3 as stated: at a concrete timestamp the text on the
  console ends with two newlines, so it is not one line closed by a single
  newline.
\<close>

theorem console_single_newline_counterexample:
  "stdout (sinks (snd (Logger_info quiet_host (fst (Logger_constructor scenario_opts io0))
       [JStr ''x''] ''2026-11-02T09:30:00.000Z'' rt0)))
     = ''2026-11-02T09:30:00.000Z [INFO] x'' @ [CHR 0x0A, CHR 0x0A]
   \<and> stdout (sinks (snd (Logger_info quiet_host (fst (Logger_constructor scenario_opts io0))
       [JStr ''x''] ''2026-11-02T09:30:00.000Z'' rt0)))
     \<noteq> ''2026-11-02T09:30:00.000Z [INFO] x'' @ [CHR 0x0A]
   \<and> count_list (stdout (sinks (snd (Logger_info quiet_host (fst (Logger_constructor scenario_opts io0))
       [JStr ''x''] ''2026-11-02T09:30:00.000Z'' rt0)))) (CHR 0x0A) = 2"
  by (simp add: scenario_logger_eq Logger_info_def run_cb_def and_then_def
      Logger_log_def body_x Logger_logToFile_def Logger_logToConsole_def console_log_def rt0_def io0_def)

text \<open>
  Claim C4, amended. The claim as stated fails when a callback registered for
  the severity throws: then also a call below the minimum raises (see the
  counterexample below). For a logger with the file sink enabled and no path,
  and a call whose callback, if any, returns: below the minimum the call raises
  nothing; at or above the minimum, when the arguments convert to strings, it
  throws \<open>Error("No log file path provided")\<close> from \<open>#logToFile\<close>, before either
  sink is written. Constructing such a logger throws nothing and leaves the
  file system as it was.
\<close>

theorem missing_path_error_at_write_time:
  assumes "logToFile this" and "\<not> truthy (logFilePath this)"
    and "run_cb host this (LOG_TYPES s) message rt = (None, rt1)"
  shows "(LOG_LEVELS s < level this \<longrightarrow>
            Logger_method s host this message date rt = (None, rt1))
       \<and> (level this \<le> LOG_LEVELS s \<longrightarrow> Logger_getFormattedMessage message = Inr body \<longrightarrow>
            Logger_method s host this message date rt
              = (Some (Error ''No log file path provided''), rt1))
       \<and> logToFile (fst (Logger_constructor
            (opt\<lparr>opt_logToFile := Some True, opt_logFilePath := None\<rparr>) w))
       \<and> logFilePath (fst (Logger_constructor
            (opt\<lparr>opt_logToFile := Some True, opt_logFilePath := None\<rparr>) w)) = None
       \<and> snd (Logger_constructor (opt\<lparr>opt_logToFile := Some True, opt_logFilePath := None\<rparr>) w) = w"
  using assms
  by (simp add: Logger_method_unfold and_then_def Logger_log_no_path Logger_constructor_def)

theorem missing_path_error_at_write_time_witness:
  "logToFile pathless_logger \<and> \<not> truthy (logFilePath pathless_logger)
   \<and> run_cb quiet_host pathless_logger (LOG_TYPES WARN) [JStr ''x''] rt0 = (None, rt0)
   \<and> run_cb quiet_host pathless_logger (LOG_TYPES DEBUG) [JStr ''x''] rt0 = (None, rt0)
   \<and> LOG_LEVELS DEBUG < level pathless_logger
   \<and> Logger_method DEBUG quiet_host pathless_logger [JStr ''x''] ''t'' rt0 = (None, rt0)
   \<and> level pathless_logger \<le> LOG_LEVELS WARN
   \<and> Logger_getFormattedMessage [JStr ''x''] = Inr (''x'' @ [CHR 0x0A])
   \<and> Logger_method WARN quiet_host pathless_logger [JStr ''x''] ''t'' rt0
        = (Some (Error ''No log file path provided''), rt0)"
proof -
  have a: "logToFile pathless_logger" "\<not> truthy (logFilePath pathless_logger)"
    by (simp_all add: pathless_logger_eq)
  have b: "run_cb quiet_host pathless_logger (LOG_TYPES WARN) [JStr ''x''] rt0 = (None, rt0)"
    by (simp add: pathless_logger_eq run_cb_def)
  have c: "run_cb quiet_host pathless_logger (LOG_TYPES DEBUG) [JStr ''x''] rt0 = (None, rt0)"
    by (simp add: pathless_logger_eq run_cb_def)
  have d: "LOG_LEVELS DEBUG < level pathless_logger" "level pathless_logger \<le> LOG_LEVELS WARN"
    by (simp_all add: pathless_logger_eq)
  have e: "Logger_getFormattedMessage [JStr ''x''] = Inr (''x'' @ [CHR 0x0A])"
    by (rule body_x)
  show ?thesis
    using a b c d e
      missing_path_error_at_write_time [OF a b, of "''t''" "''x'' @ [CHR 0x0A]"]
      missing_path_error_at_write_time [OF a c, of "''t''"]
    by simp
qed

text \<open>
  The counterexample to C4 as stated: file sink enabled, no path, level INFO and
  a throwing callback registered for DEBUG; \<open>debug("x")\<close> is below the minimum
  and raises.
\<close>

theorem filtered_call_raises_counterexample:
  "logToFile guarded_logger \<and> logFilePath guarded_logger = None
   \<and> LOG_LEVELS DEBUG < level guarded_logger
   \<and> fst (Logger_debug failing_host guarded_logger [JStr ''x''] ''t'' rt0) = Some (Error ''boom'')"
  by (simp add: guarded_logger_eq Logger_debug_def run_cb_def invoke_def failing_host_def and_then_def)

text \<open>
  Claim C5. After \<open>on(s, f)\<close>, every call of the method of severity \<open>s\<close> runs
  \<open>f\<close> on the arguments of the call, whatever the minimum level: what \<open>f\<close>
  throws or does to the sinks, there, is what the call throws or starts from,
  and the invocation is recorded once. Below the minimum the call ends with the
  state \<open>f\<close> left, nothing emitted; otherwise formatting and emission go on
  from that state.
\<close>

theorem callback_fires_regardless_of_level:
  assumes "host f message (sinks rt) = (r, w)"
  shows "Logger_method s host (snd (Logger_on this (JStr (LOG_TYPES s)) (JFunction f src)))
           message date rt
         = (case r of
              Some e \<Rightarrow> (Some e, rt\<lparr>sinks := w, invoked := invoked rt @ [(f, message)]\<rparr>)
            | None \<Rightarrow>
                if LOG_LEVELS s < level this
                then (None, rt\<lparr>sinks := w, invoked := invoked rt @ [(f, message)]\<rparr>)
                else Logger_log (snd (Logger_on this (JStr (LOG_TYPES s)) (JFunction f src)))
                       (LOG_TYPES s) message date
                       (rt\<lparr>sinks := w, invoked := invoked rt @ [(f, message)]\<rparr>))
       \<and> invoked (snd (Logger_method s host
             (snd (Logger_on this (JStr (LOG_TYPES s)) (JFunction f src))) message date rt))
           = invoked rt @ [(f, message)]"
proof
  let ?lg = "snd (Logger_on this (JStr (LOG_TYPES s)) (JFunction f src))"
  have reg: "cb ?lg (LOG_TYPES s) = Some f"
    by (simp add: Logger_on_registers)
  have lv: "level ?lg = level this"
    by (simp add: Logger_on_registers)
  show "Logger_method s host ?lg message date rt
         = (case r of
              Some e \<Rightarrow> (Some e, rt\<lparr>sinks := w, invoked := invoked rt @ [(f, message)]\<rparr>)
            | None \<Rightarrow>
                if LOG_LEVELS s < level this
                then (None, rt\<lparr>sinks := w, invoked := invoked rt @ [(f, message)]\<rparr>)
                else Logger_log ?lg (LOG_TYPES s) message date
                       (rt\<lparr>sinks := w, invoked := invoked rt @ [(f, message)]\<rparr>))"
    using assms reg lv
    by (cases r) (simp_all add: Logger_method_unfold run_cb_def invoke_def and_then_def)
  show "invoked (snd (Logger_method s host ?lg message date rt)) = invoked rt @ [(f, message)]"
    using reg by (rule cb_fires)
qed

text \<open>
  The witness: a callback that prints its arguments is registered for DEBUG on
  a logger of level INFO with no sink enabled. \<open>debug("x")\<close> is filtered, and
  the console holds what the callback printed.
\<close>

theorem callback_fires_regardless_of_level_witness:
  "echo_host 0 [JStr ''x''] (sinks rt0) = (None, io0\<lparr>stdout := ''x'' @ [CHR 0x0A]\<rparr>)
   \<and> LOG_LEVELS DEBUG < level plain_logger
   \<and> Logger_method DEBUG echo_host
        (snd (Logger_on plain_logger (JStr (LOG_TYPES DEBUG)) (JFunction 0 ''f'')))
        [JStr ''x''] ''t'' rt0
     = (None, \<lparr>sinks = io0\<lparr>stdout := ''x'' @ [CHR 0x0A]\<rparr>, invoked = [(0, [JStr ''x''])]\<rparr>)"
proof -
  have a: "echo_host 0 [JStr ''x''] (sinks rt0) = (None, io0\<lparr>stdout := ''x'' @ [CHR 0x0A]\<rparr>)"
    by (simp add: echo_host_def body_x rt0_def io0_def)
  have b: "LOG_LEVELS DEBUG < level plain_logger"
    by (simp add: plain_logger_eq)
  show ?thesis
    using a b
      callback_fires_regardless_of_level
        [of echo_host 0 "[JStr ''x'']" rt0 None "io0\<lparr>stdout := ''x'' @ [CHR 0x0A]\<rparr>"
            DEBUG plain_logger "''f''" "''t''"]
    by (simp add: rt0_def)
qed

text \<open>
  Claim C6. When the callback registered for the severity of a call throws, the
  call throws the same error and the sinks are left exactly as the callback
  left them: nothing is filtered, formatted or emitted.
\<close>

theorem callback_throw_aborts_call:
  assumes "cb this (LOG_TYPES s) = Some f" and "host f message (sinks rt) = (Some e, w)"
  shows "Logger_method s host this message date rt
           = (Some e, rt\<lparr>sinks := w, invoked := invoked rt @ [(f, message)]\<rparr>)"
  using assms by (simp add: Logger_method_unfold run_cb_def invoke_def and_then_def)

theorem callback_throw_aborts_call_witness:
  "cb (snd (Logger_on plain_logger (JStr ''WARN'') (JFunction 0 ''f''))) (LOG_TYPES WARN) = Some 0
   \<and> failing_host 0 [JStr ''x''] (sinks rt0) = (Some (Error ''boom''), io0)
   \<and> Logger_method WARN failing_host (snd (Logger_on plain_logger (JStr ''WARN'') (JFunction 0 ''f'')))
        [JStr ''x''] ''t'' rt0
     = (Some (Error ''boom''), \<lparr>sinks = io0, invoked = [(0, [JStr ''x''])]\<rparr>)"
proof -
  have a: "cb (snd (Logger_on plain_logger (JStr ''WARN'') (JFunction 0 ''f''))) (LOG_TYPES WARN) = Some 0"
    by (simp add: Logger_on_def Object_values_LOG_TYPES_def)
  have b: "failing_host 0 [JStr ''x''] (sinks rt0) = (Some (Error ''boom''), io0)"
    by (simp add: failing_host_def rt0_def)
  show ?thesis
    using a b callback_throw_aborts_call
        [of "snd (Logger_on plain_logger (JStr ''WARN'') (JFunction 0 ''f''))" WARN 0 failing_host
            "[JStr ''x'']" rt0 "Error ''boom''" io0 "''t''"]
    by (simp add: rt0_def)
qed

text \<open>
  Claim C7. The rendered body is the string conversions of the arguments joined
  with single spaces, followed by one newline; for the arguments "a", 1, true it
  is "a 1 true" and a newline.
\<close>

theorem body_is_joined_conversions:
  "(map String_js args = map Inr ss \<longrightarrow>
      Logger_getFormattedMessage args = Inr (spaced ss @ [CHR 0x0A]))
   \<and> Logger_getFormattedMessage [JStr ''a'', JNum 1, JBool True] = Inr (''a 1 true'' @ [CHR 0x0A])"
proof
  show "map String_js args = map Inr ss \<longrightarrow>
      Logger_getFormattedMessage args = Inr (spaced ss @ [CHR 0x0A])"
    by (simp add: Logger_getFormattedMessage_def map_String_Inr join_spaced)
  show "Logger_getFormattedMessage [JStr ''a'', JNum 1, JBool True] = Inr (''a 1 true'' @ [CHR 0x0A])"
    by (simp add: Logger_getFormattedMessage_def join_def string_of_int_def string_of_nat.simps)
qed

theorem body_is_joined_conversions_witness:
  "map String_js [JStr ''a'', JNull] = map Inr [''a'', ''null'']
   \<and> Logger_getFormattedMessage [JStr ''a'', JNull] = Inr (''a null'' @ [CHR 0x0A])"
  using body_is_joined_conversions [of "[JStr ''a'', JNull]" "[''a'', ''null'']"] by simp

text \<open>
  Claim C8. \<open>on\<close> with a severity that is not one of the four names, or with a
  callback that is not a function, throws nothing and leaves the logger, and so
  the whole callback table, as it was.
\<close>

theorem on_ignores_bad_arguments:
  "lvl \<notin> set Object_values_LOG_TYPES \<or> typeof f \<noteq> ''function''
     \<Longrightarrow> Logger_on this lvl f = (None, this)"
  by (auto simp: Logger_on_def)

theorem on_ignores_bad_arguments_witness:
  "JStr ''TRACE'' \<notin> set Object_values_LOG_TYPES
   \<and> Logger_on plain_logger (JStr ''TRACE'') (JFunction 0 ''f'') = (None, plain_logger)
   \<and> typeof (JStr ''f'') \<noteq> ''function''
   \<and> Logger_on plain_logger (JStr ''WARN'') (JStr ''f'') = (None, plain_logger)"
  using on_ignores_bad_arguments [of "JStr ''TRACE''" "JFunction 0 ''f''" plain_logger]
        on_ignores_bad_arguments [of "JStr ''WARN''" "JStr ''f''" plain_logger]
  by (simp add: Object_values_LOG_TYPES_def)

text \<open>
  Claim C9. Registering \<open>f\<close> and then \<open>g\<close> for the same severity leaves the table
  as if only \<open>g\<close> had been registered, and a following call of that severity
  makes exactly one callback invocation, of \<open>g\<close>.
\<close>

theorem re_registration_replaces:
  "cb (snd (Logger_on (snd (Logger_on this (JStr (LOG_TYPES s)) (JFunction f srcf)))
              (JStr (LOG_TYPES s)) (JFunction g srcg)))
     = (cb this)(LOG_TYPES s \<mapsto> g)
   \<and> invoked (snd (Logger_method s host
        (snd (Logger_on (snd (Logger_on this (JStr (LOG_TYPES s)) (JFunction f srcf)))
              (JStr (LOG_TYPES s)) (JFunction g srcg))) message date rt))
     = invoked rt @ [(g, message)]"
proof
  let ?lg2 = "snd (Logger_on (snd (Logger_on this (JStr (LOG_TYPES s)) (JFunction f srcf)))
              (JStr (LOG_TYPES s)) (JFunction g srcg))"
  show tab: "cb ?lg2 = (cb this)(LOG_TYPES s \<mapsto> g)"
    by (simp add: Logger_on_registers)
  then have "cb ?lg2 (LOG_TYPES s) = Some g" by simp
  then show "invoked (snd (Logger_method s host ?lg2 message date rt)) = invoked rt @ [(g, message)]"
    by (rule cb_fires)
qed

text \<open>
  Claim C10. On a logger with no callback registered, every sequence of log
  calls gives, call by call, the same errors and the same sinks in the current
  class as in the older class on the same four fields; and the two
  constructors compute the same four fields from the same options, the current
  one starting with an empty callback table.
\<close>

theorem callback_free_logger_refines_legacy:
  "(cb this = Map.empty \<longrightarrow>
      Logger_run host this calls rt =
        (case Legacy_run (legacy_logger.truncate this) calls (sinks rt) of
           (rs, w) \<Rightarrow> (rs, rt\<lparr>sinks := w\<rparr>)))
   \<and> legacy_logger.truncate (fst (Logger_constructor opt w))
        = Legacy_constructor (legacy_opts.truncate opt)
   \<and> cb (fst (Logger_constructor opt w)) = Map.empty"
proof (intro conjI impI)
  assume "cb this = Map.empty"
  then show "Logger_run host this calls rt =
        (case Legacy_run (legacy_logger.truncate this) calls (sinks rt) of
           (rs, w) \<Rightarrow> (rs, rt\<lparr>sinks := w\<rparr>))"
    by (rule Logger_run_legacy)
next
  show "legacy_logger.truncate (fst (Logger_constructor opt w))
        = Legacy_constructor (legacy_opts.truncate opt)"
    by (simp add: Logger_constructor_def Legacy_constructor_def legacy_logger.truncate_def
        legacy_opts.truncate_def Let_def split: option.splits)
next
  show "cb (fst (Logger_constructor opt w)) = Map.empty"
    by (simp add: Logger_constructor_def Let_def split: option.splits)
qed

theorem callback_free_logger_refines_legacy_witness:
  "cb file_logger = Map.empty
   \<and> Legacy_run (legacy_logger.truncate file_logger) two_calls io0
       = ([None, None], \<lparr>files = [''app.log'' \<mapsto> ''t [WARN] x'' @ [CHR 0x0A]], faults = Map.empty,
                          stdout = ''t [WARN] x'' @ [CHR 0x0A, CHR 0x0A]\<rparr>)
   \<and> Logger_run quiet_host file_logger two_calls rt0
       = ([None, None], \<lparr>sinks = \<lparr>files = [''app.log'' \<mapsto> ''t [WARN] x'' @ [CHR 0x0A]], faults = Map.empty,
                                  stdout = ''t [WARN] x'' @ [CHR 0x0A, CHR 0x0A]\<rparr>,
                          invoked = []\<rparr>)
   \<and> cb pathless_logger = Map.empty
   \<and> Legacy_run (legacy_logger.truncate pathless_logger) two_calls io0
       = ([Some (Error ''No log file path provided''), None], io0)
   \<and> Logger_run quiet_host pathless_logger two_calls rt0
       = ([Some (Error ''No log file path provided''), None], rt0)"
proof -
  have a: "cb file_logger = Map.empty" "cb pathless_logger = Map.empty"
    by (simp_all add: file_logger_eq pathless_logger_eq)
  have b: "Legacy_run (legacy_logger.truncate file_logger) two_calls io0
       = ([None, None], \<lparr>files = [''app.log'' \<mapsto> ''t [WARN] x'' @ [CHR 0x0A]], faults = Map.empty,
                          stdout = ''t [WARN] x'' @ [CHR 0x0A, CHR 0x0A]\<rparr>)"
    by (simp add: two_calls_def file_logger_eq legacy_logger.truncate_def Legacy_warn_def
        Legacy_debug_def Legacy_log_def body_x Legacy_logToFile_def Legacy_logToConsole_def
        and_then_def appendFileSync_def console_log_def io0_def)
  have c: "Legacy_run (legacy_logger.truncate pathless_logger) two_calls io0
       = ([Some (Error ''No log file path provided''), None], io0)"
    by (simp add: two_calls_def pathless_logger_eq legacy_logger.truncate_def Legacy_warn_def
        Legacy_debug_def Legacy_log_def body_x Legacy_logToFile_def and_then_def)
  show ?thesis
    using a b c
      callback_free_logger_refines_legacy [of file_logger quiet_host two_calls rt0]
      callback_free_logger_refines_legacy [of pathless_logger quiet_host two_calls rt0]
    by (simp add: rt0_def)
qed

end
